theory Spec2Isabelle
  imports Main "HOL-Library.Sublist"
begin

section \<open>Failures and effects\<close>

text \<open>
  The library raises failures in two ways: \<^verbatim>\<open>throw new Error(text)\<close> (in both
  \<^verbatim>\<open>unwrap\<close> functions) and \<^verbatim>\<open>throw msg\<close>, which throws the caller's string itself
  (in both \<^verbatim>\<open>expect\<close> functions). The language raises a \<^verbatim>\<open>TypeError\<close> of its own
  when the operator \<^verbatim>\<open>+\<close> cannot convert an operand to a string and when an array
  pattern is matched against a value that is not iterable. A failure is a value of the
  type below; a function that can throw returns \<open>failure + 'a\<close>, with \<open>Inl\<close> for the
  thrown value.
\<close>

datatype failure =
    Error string
  | Thrown string
  | TypeError string

text \<open>
  The text a handler reads from a thrown value: the \<^verbatim>\<open>message\<close> of an \<^verbatim>\<open>Error\<close>
  or \<^verbatim>\<open>TypeError\<close> object, and the string itself when a string was thrown.
\<close>

fun message :: "failure \<Rightarrow> string" where
  "message (Error m) = m"
| "message (Thrown m) = m"
| "message (TypeError m) = m"

text \<open>
  Callbacks supplied by the caller may read and change the caller's state and may
  throw. A callback, and every operation that invokes one, is a function from the
  state before the call to the outcome and the state after it. The state type \<open>'s\<close> is
  left open.
\<close>

type_synonym ('r, 's) js = "'s \<Rightarrow> (failure + 'r) \<times> 's"

definition ret :: "'r \<Rightarrow> ('r, 's) js" where
  "ret r s = (Inr r, s)"

definition bind :: "('a, 's) js \<Rightarrow> ('a \<Rightarrow> ('b, 's) js) \<Rightarrow> ('b, 's) js" where
  "bind m k s = (case m s of (Inl f, s') \<Rightarrow> (Inl f, s') | (Inr a, s') \<Rightarrow> k a s')"



text \<open>
  A callback that returns \<open>r\<close> and counts its own invocations in the state.
\<close>

definition counting :: "'r \<Rightarrow> ('r, nat) js" where
  "counting r n = (Inr r, Suc n)"

section \<open>Data model\<close>

text \<open>
  \<^verbatim>\<open>type Some<T> = { type: 'some'; value: T }\<close>, \<^verbatim>\<open>type None = { type: 'none' }\<close>,
  \<^verbatim>\<open>type Ok<T> = { type: 'ok'; value: T }\<close>, \<^verbatim>\<open>type Err<E> = { type: 'err'; error: E }\<close>:
  the two discriminated unions of tag and payload fields.
\<close>

datatype 'a some_none = Some_fields 'a | None_fields

datatype ('t, 'e) ok_err = Ok_fields 't | Err_fields 'e

text \<open>
  TypeScript's \<^verbatim>\<open>void\<close>, whose only value is \<^verbatim>\<open>undefined\<close>, and the argument type
  \<^verbatim>\<open>T | undefined | null\<close> of \<^verbatim>\<open>Maybe\<close>.
\<close>

datatype void = Undefined

datatype 'a nullable = Is_undefined | Is_null | Value 'a

text \<open>
  The payload types \<^verbatim>\<open>T\<close> and \<^verbatim>\<open>E\<close> are unconstrained, so a payload may be any
  value of the language. The primitive values are modelled concretely: \<^verbatim>\<open>undefined\<close>,
  \<^verbatim>\<open>null\<close>, the booleans, the integer-valued numbers that print in decimal (magnitude
  below \<open>10^21\<close>), strings, and symbols with their description.
\<close>

datatype js_primitive =
    JUndefined
  | JNull
  | JBoolean bool
  | JNumber int
  | JString string
  | JSymbol string

function decimal :: "nat \<Rightarrow> string" where
  "decimal n =
     (if n < 10 then [''0123456789'' ! n]
      else decimal (n div 10) @ [''0123456789'' ! (n mod 10)])"
  by pat_completeness auto
termination
  by (relation "measure id") auto

declare decimal.simps [simp del]

text \<open>
  The textual form of a primitive value, as \<^verbatim>\<open>String(e)\<close> gives it.
\<close>

fun textual_form :: "js_primitive \<Rightarrow> string" where
  "textual_form JUndefined = ''undefined''"
| "textual_form JNull = ''null''"
| "textual_form (JBoolean b) = (if b then ''true'' else ''false'')"
| "textual_form (JNumber i) = (if i < 0 then ''-'' @ decimal (nat (- i)) else decimal (nat i))"
| "textual_form (JString s) = s"
| "textual_form (JSymbol d) = ''Symbol('' @ d @ '')''"

text \<open>
  The conversion that \<^verbatim>\<open>+\<close> applies to an operand when the other operand is a
  string: the textual form, except that a symbol is refused with a \<^verbatim>\<open>TypeError\<close>.
\<close>

fun ToString :: "js_primitive \<Rightarrow> failure + string" where
  "ToString (JSymbol d) = Inl (TypeError ''Cannot convert a Symbol value to a string'')"
| "ToString e = Inr (textual_form e)"



text \<open>
  The combinators are module-level functions that take the instance as \<^verbatim>\<open>this\<close>.
  \<^verbatim>\<open>createBaseOption\<close> and \<^verbatim>\<open>createBaseResult\<close> return an object that binds each
  property name to the function of that name; an instance is its tag and payload
  fields together with the properties that hold functions.
\<close>

datatype option_fn =
    Fn_some | Fn_none | Fn_unwrap | Fn_unwrapOr | Fn_unwrapOrGet | Fn_expect
  | Fn_match | Fn_map | Fn_mapOr | Fn_flatMap | Fn_mapOrElse | Fn_inspect
  | Fn_ok | Fn_okOr | Fn_okOrElse | Fn_and | Fn_or | Fn_orElse | Fn_xor
  | Fn_filter | Fn_zip | Fn_unzip

datatype result_fn =
    RFn_ok | RFn_err | RFn_get | RFn_fail
  | RFn_unwrap | RFn_unwrapOr | RFn_unwrapOrGet | RFn_expect

record 'a Option =
  variant :: "'a some_none"
  methods :: "string \<rightharpoonup> option_fn"

record ('t, 'e) Result =
  variant_r :: "('t, 'e) ok_err"
  methods_r :: "string \<rightharpoonup> result_fn"

definition type :: "'a Option \<Rightarrow> string" where
  "type this = (case variant this of Some_fields v \<Rightarrow> ''some'' | None_fields \<Rightarrow> ''none'')"

definition type_r :: "('t, 'e) Result \<Rightarrow> string" where
  "type_r this = (case variant_r this of Ok_fields v \<Rightarrow> ''ok'' | Err_fields e \<Rightarrow> ''err'')"

section \<open>Behaviour attachment and constructors\<close>

definition createBaseOption :: "string \<rightharpoonup> option_fn" where
  "createBaseOption = map_of
     [(''some'', Fn_some), (''none'', Fn_none), (''unwrap'', Fn_unwrap),
      (''unwrapOr'', Fn_unwrapOr), (''unwrapOrGet'', Fn_unwrapOrGet),
      (''expect'', Fn_expect), (''match'', Fn_match), (''map'', Fn_map),
      (''mapOr'', Fn_mapOr), (''flatMap'', Fn_flatMap), (''mapOrElse'', Fn_mapOrElse),
      (''inspect'', Fn_inspect), (''ok'', Fn_ok), (''okOr'', Fn_okOr),
      (''okOrElse'', Fn_okOrElse), (''and'', Fn_and), (''or'', Fn_or),
      (''orElse'', Fn_orElse), (''xor'', Fn_xor), (''filter'', Fn_filter),
      (''zip'', Fn_zip), (''unzip'', Fn_unzip)]"

definition createBaseResult :: "string \<rightharpoonup> result_fn" where
  "createBaseResult = map_of
     [(''ok'', RFn_ok), (''err'', RFn_err), (''get'', RFn_get), (''fail'', RFn_fail),
      (''unwrap'', RFn_unwrap), (''unwrapOr'', RFn_unwrapOr),
      (''unwrapOrGet'', RFn_unwrapOrGet), (''expect'', RFn_expect)]"

text \<open>
  \<^verbatim>\<open>{ type: 'some', value, ...createBaseOption() }\<close>. The source also writes a console
  warning when \<^verbatim>\<open>value\<close> is \<^verbatim>\<open>undefined\<close> or \<^verbatim>\<open>null\<close>; the warning does not
  change the object returned, and the console is not part of the state that the
  combinators or the callbacks read, so it is left out.
\<close>

definition Some_opt :: "'a \<Rightarrow> 'a Option" where
  "Some_opt v = \<lparr>variant = Some_fields v, methods = createBaseOption\<rparr>"

definition None_opt :: "'a Option" where
  "None_opt = \<lparr>variant = None_fields, methods = createBaseOption\<rparr>"

definition Maybe :: "'a nullable \<Rightarrow> 'a Option" where
  "Maybe v = (case v of
       Is_undefined \<Rightarrow> None_opt
     | Is_null \<Rightarrow> None_opt
     | Value x \<Rightarrow> Some_opt x)"

definition Ok :: "'t \<Rightarrow> ('t, 'e) Result" where
  "Ok v = \<lparr>variant_r = Ok_fields v, methods_r = createBaseResult\<rparr>"

definition Err :: "'e \<Rightarrow> ('t, 'e) Result" where
  "Err e = \<lparr>variant_r = Err_fields e, methods_r = createBaseResult\<rparr>"

text \<open>
  \<^verbatim>\<open>{ ...option, ...createBaseOption() }\<close>: every property of the argument is copied,
  then the properties of the base object are written over those of the same name.
\<close>

definition optionFactory :: "'a Option \<Rightarrow> 'a Option" where
  "optionFactory option = \<lparr>variant = variant option, methods = methods option ++ createBaseOption\<rparr>"

definition resultFactory :: "('t, 'e) Result \<Rightarrow> ('t, 'e) Result" where
  "resultFactory result = \<lparr>variant_r = variant_r result, methods_r = methods_r result ++ createBaseResult\<rparr>"

section \<open>Option combinators\<close>

text \<open>
  Each function below is the function of the same name in \<^verbatim>\<open>option.ts\<close>, with
  \<^verbatim>\<open>this\<close> as its first argument. A branch on \<^verbatim>\<open>this.type == 'some'\<close> that then
  reads \<^verbatim>\<open>this.value\<close> is a case distinction on the fields. Names that HOL already
  uses carry the suffix \<open>_opt\<close>.
\<close>

definition some :: "'a Option \<Rightarrow> bool" where
  "some this = (type this = ''some'')"

definition none :: "'a Option \<Rightarrow> bool" where
  "none this = (type this = ''none'')"

definition unwrap :: "'a Option \<Rightarrow> failure + 'a" where
  "unwrap this = (case variant this of
       Some_fields v \<Rightarrow> Inr v
     | None_fields \<Rightarrow> Inl (Error ''Called `unwrap()` on a `None` `Option` value''))"

definition unwrapOr :: "'a Option \<Rightarrow> 'a \<Rightarrow> 'a" where
  "unwrapOr this def = (case variant this of
       Some_fields v \<Rightarrow> v
     | None_fields \<Rightarrow> def)"


definition expect :: "'a Option \<Rightarrow> string \<Rightarrow> failure + 'a" where
  "expect this msg = (case variant this of
       Some_fields v \<Rightarrow> Inr v
     | None_fields \<Rightarrow> Inl (Thrown msg))"




definition mapOr :: "'a Option \<Rightarrow> ('a \<Rightarrow> ('u, 's) js) \<Rightarrow> 'u \<Rightarrow> ('u Option, 's) js" where
  "mapOr this mapper val = (case variant this of
       Some_fields v \<Rightarrow> bind (mapper v) (\<lambda>u. ret (Some_opt u))
     | None_fields \<Rightarrow> ret (Some_opt val))"


definition mapOrElse ::
  "'a Option \<Rightarrow> ('a \<Rightarrow> ('u, 's) js) \<Rightarrow> ('u, 's) js \<Rightarrow> ('u Option, 's) js" where
  "mapOrElse this mapper supplier = (case variant this of
       Some_fields v \<Rightarrow> bind (mapper v) (\<lambda>u. ret (Some_opt u))
     | None_fields \<Rightarrow> bind supplier (\<lambda>u. ret (Some_opt u)))"


definition ok :: "'a Option \<Rightarrow> ('a, void) Result" where
  "ok this = (case variant this of
       Some_fields v \<Rightarrow> Ok v
     | None_fields \<Rightarrow> Err Undefined)"

definition okOr :: "'a Option \<Rightarrow> 'e \<Rightarrow> ('a, 'e) Result" where
  "okOr this error = (case variant this of
       Some_fields v \<Rightarrow> Ok v
     | None_fields \<Rightarrow> Err error)"

definition okOrElse :: "'a Option \<Rightarrow> ('e, 's) js \<Rightarrow> (('a, 'e) Result, 's) js" where
  "okOrElse this error = (case variant this of
       Some_fields v \<Rightarrow> ret (Ok v)
     | None_fields \<Rightarrow> bind error (\<lambda>e. ret (Err e)))"

definition and_opt :: "'a Option \<Rightarrow> 'u Option \<Rightarrow> 'u Option" where
  "and_opt this other = (if type this = ''some'' then other else None_opt)"

definition or_opt :: "'a Option \<Rightarrow> 'a Option \<Rightarrow> 'a Option" where
  "or_opt this other = (if type this = ''some'' then this else other)"


definition xor_opt :: "'a Option \<Rightarrow> 'a Option \<Rightarrow> 'a Option" where
  "xor_opt this other =
     (if type this = ''some'' \<and> type other = ''none'' then this
      else if type this = ''none'' \<and> type other = ''some'' then other
      else None_opt)"


definition zip_opt :: "'a Option \<Rightarrow> 'u Option \<Rightarrow> ('a \<times> 'u) Option" where
  "zip_opt this other = (case (variant this, variant other) of
       (Some_fields v, Some_fields w) \<Rightarrow> Some_opt (v, w)
     | _ \<Rightarrow> None_opt)"


section \<open>Result combinators\<close>

text \<open>
  The functions of the result module; those whose name the option module also uses
  carry the suffix \<open>_r\<close>.
\<close>

definition ok_r :: "('t, 'e) Result \<Rightarrow> bool" where
  "ok_r this = (type_r this = ''ok'')"

definition err :: "('t, 'e) Result \<Rightarrow> bool" where
  "err this = (type_r this = ''err'')"

definition get :: "('t, 'e) Result \<Rightarrow> 't Option" where
  "get this = (case variant_r this of
       Ok_fields v \<Rightarrow> Some_opt v
     | Err_fields e \<Rightarrow> None_opt)"

definition fail :: "('t, 'e) Result \<Rightarrow> 'e Option" where
  "fail this = (case variant_r this of
       Err_fields e \<Rightarrow> Some_opt e
     | Ok_fields v \<Rightarrow> None_opt)"

text \<open>
  \<^verbatim>\<open>'Called ... with: ' + this.error\<close>: the operator \<^verbatim>\<open>+\<close> converts the payload to a
  string with the conversion of the host language, which depends on the payload type
  and can itself throw (on a symbol, or on an object whose \<^verbatim>\<open>toString\<close> throws). It
  is the parameter \<open>to_string\<close>; on primitive payloads it is \<open>ToString\<close>.
\<close>

definition unwrap_r :: "('e \<Rightarrow> failure + string) \<Rightarrow> ('t, 'e) Result \<Rightarrow> failure + 't" where
  "unwrap_r to_string this = (case variant_r this of
       Ok_fields v \<Rightarrow> Inr v
     | Err_fields e \<Rightarrow>
         (case to_string e of
            Inl f \<Rightarrow> Inl f
          | Inr text \<Rightarrow>
              Inl (Error (''Called `unwrap()` on an `Err` `Result` value with: '' @ text))))"

definition unwrapOr_r :: "('t, 'e) Result \<Rightarrow> 't \<Rightarrow> 't" where
  "unwrapOr_r this def = (case variant_r this of
       Ok_fields v \<Rightarrow> v
     | Err_fields e \<Rightarrow> def)"


definition expect_r :: "('t, 'e) Result \<Rightarrow> string \<Rightarrow> failure + 't" where
  "expect_r this msg = (case variant_r this of
       Ok_fields v \<Rightarrow> Inr v
     | Err_fields e \<Rightarrow> Inl (Thrown msg))"

section \<open>Calls\<close>

text \<open>
  A call of one of the operations that take no callback, with its arguments, and the
  value it returns. \<open>call_option\<close> and \<open>call_result\<close> run the function that the base
  table binds to the name of the call; the outcome is the failure the function throws
  or the value it returns.
\<close>

datatype ('a, 'u, 'e) option_call =
    Call_some
  | Call_none
  | Call_unwrap
  | Call_unwrapOr 'a
  | Call_expect string
  | Call_ok
  | Call_okOr 'e
  | Call_and "'u Option"
  | Call_or "'a Option"
  | Call_xor "'a Option"
  | Call_zip "'u Option"

datatype ('a, 'u, 'e) option_value =
    Boolean bool
  | Payload 'a
  | Result_void "('a, void) Result"
  | Result_error "('a, 'e) Result"
  | Option_this "'a Option"
  | Option_other "'u Option"
  | Option_zipped "('a \<times> 'u) Option"

fun call_option ::
  "'a Option \<Rightarrow> ('a, 'u, 'e) option_call \<Rightarrow> failure + ('a, 'u, 'e) option_value" where
  "call_option this Call_some = Inr (Boolean (some this))"
| "call_option this Call_none = Inr (Boolean (none this))"
| "call_option this Call_unwrap =
     (case unwrap this of Inl f \<Rightarrow> Inl f | Inr v \<Rightarrow> Inr (Payload v))"
| "call_option this (Call_unwrapOr d) = Inr (Payload (unwrapOr this d))"
| "call_option this (Call_expect msg) =
     (case expect this msg of Inl f \<Rightarrow> Inl f | Inr v \<Rightarrow> Inr (Payload v))"
| "call_option this Call_ok = Inr (Result_void (ok this))"
| "call_option this (Call_okOr error) = Inr (Result_error (okOr this error))"
| "call_option this (Call_and other) = Inr (Option_other (and_opt this other))"
| "call_option this (Call_or other) = Inr (Option_this (or_opt this other))"
| "call_option this (Call_xor other) = Inr (Option_this (xor_opt this other))"
| "call_option this (Call_zip other) = Inr (Option_zipped (zip_opt this other))"


datatype 't result_call =
    RCall_ok
  | RCall_err
  | RCall_get
  | RCall_fail
  | RCall_unwrap
  | RCall_unwrapOr 't
  | RCall_expect string

datatype ('t, 'e) result_value =
    RBoolean bool
  | RPayload 't
  | ROption_value "'t Option"
  | ROption_error "'e Option"

fun call_result ::
  "('e \<Rightarrow> failure + string) \<Rightarrow> ('t, 'e) Result \<Rightarrow> 't result_call \<Rightarrow>
     failure + ('t, 'e) result_value" where
  "call_result to_string this RCall_ok = Inr (RBoolean (ok_r this))"
| "call_result to_string this RCall_err = Inr (RBoolean (err this))"
| "call_result to_string this RCall_get = Inr (ROption_value (get this))"
| "call_result to_string this RCall_fail = Inr (ROption_error (fail this))"
| "call_result to_string this RCall_unwrap =
     (case unwrap_r to_string this of Inl f \<Rightarrow> Inl f | Inr v \<Rightarrow> Inr (RPayload v))"
| "call_result to_string this (RCall_unwrapOr d) = Inr (RPayload (unwrapOr_r this d))"
| "call_result to_string this (RCall_expect msg) =
     (case expect_r this msg of Inl f \<Rightarrow> Inl f | Inr v \<Rightarrow> Inr (RPayload v))"


section \<open>Basic facts\<close>

lemma type_Some_opt: "type (Some_opt v) = ''some''"
  by (simp add: type_def Some_opt_def)

lemma type_None_opt: "type None_opt = ''none''"
  by (simp add: type_def None_opt_def)

lemma map_add_twice: "(m ++ b) ++ b = m ++ b"
  by (rule ext) (simp add: map_add_def split: option.split)

lemma bind_ret: "bind (ret a) k = k a"
  by (rule ext) (simp add: bind_def ret_def)





lemma sublist_after: "sublist t (p @ t)"
  using sublist_appendI [of t p "[]"] by simp

section \<open>Rehydration\<close>

text \<open>
  C1. Rehydration is the identity on the tag and payload fields and is idempotent:
  for every option \<open>x\<close>, \<open>optionFactory x\<close> has the fields of \<open>x\<close>, and rehydrating it
  again returns an equal object, so that whatever is computed from the one (by any
  combinator \<open>obs\<close>, with any arguments) is computed from the other. The same holds
  for \<open>resultFactory\<close> on every result \<open>y\<close>.
\<close>

theorem rehydration_idempotent:
  "variant (optionFactory x) = variant x \<and>
   type (optionFactory x) = type x \<and>
   optionFactory (optionFactory x) = optionFactory x \<and>
   obs (optionFactory (optionFactory x)) = obs (optionFactory x) \<and>
   variant_r (resultFactory y) = variant_r y \<and>
   type_r (resultFactory y) = type_r y \<and>
   resultFactory (resultFactory y) = resultFactory y \<and>
   obs_r (resultFactory (resultFactory y)) = obs_r (resultFactory y)"
  by (simp add: optionFactory_def resultFactory_def map_add_twice type_def type_r_def)

section \<open>Mapping with a fallback\<close>

text \<open>
  C2. For every mapper \<open>fn\<close> and fallback \<open>v\<close>, \<open>mapOr\<close> on \<open>Some x\<close> is \<open>Some\<close> of
  \<open>fn x\<close> (the mapper is run, then its result is wrapped), and on \<open>None\<close> it is \<open>Some v\<close>:
  the fallback is wrapped, not returned raw. \<open>mapOrElse\<close> on \<open>Some x\<close> is the same and its
  outcome and final state do not depend on the supplier, which is therefore not invoked;
  on \<open>None\<close> it runs the supplier once and wraps what it returns in \<open>Some\<close>. For a
  mapper without effects the results are \<open>Some (f x)\<close> with the state unchanged; with
  a supplier that counts its invocations, the count stays as it was on \<open>Some\<close> and
  goes up by one on \<open>None\<close>.
\<close>

theorem mapOr_mapOrElse_wrap_fallback:
  "mapOr (Some_opt x) fn v = bind (fn x) (\<lambda>y. ret (Some_opt y)) \<and>
   mapOr (Some_opt x) (\<lambda>a. ret (f a)) v = ret (Some_opt (f x)) \<and>
   mapOr None_opt fn v = ret (Some_opt v) \<and>
   mapOrElse (Some_opt x) fn supplier = bind (fn x) (\<lambda>y. ret (Some_opt y)) \<and>
   mapOrElse (Some_opt x) fn supplier = mapOrElse (Some_opt x) fn supplier' \<and>
   mapOrElse (Some_opt x) (\<lambda>a. ret (f a)) supplier = ret (Some_opt (f x)) \<and>
   mapOrElse None_opt fn supplier = bind supplier (\<lambda>u. ret (Some_opt u)) \<and>
   mapOrElse None_opt fn (ret w) = ret (Some_opt w) \<and>
   mapOrElse (Some_opt x) (\<lambda>a. ret (f a)) (counting w) n = (Inr (Some_opt (f x)), n) \<and>
   mapOrElse None_opt fn' (counting w) n = (Inr (Some_opt w), Suc n)"
  by (simp add: mapOr_def mapOrElse_def Some_opt_def None_opt_def bind_ret)
     (simp add: bind_def ret_def counting_def)

section \<open>Unwrapping a result\<close>

text \<open>
  C3, amended. \<open>unwrap\<close> on \<open>Ok v\<close> returns \<open>v\<close>. On \<open>Err e\<close>, for every error payload
  \<open>e\<close> that the operator \<^verbatim>\<open>+\<close> converts to a string \<open>text\<close>, it raises a failure whose
  message contains \<open>text\<close>. The claim does not hold for every payload: the conversion
  refuses a symbol, and then no message with the payload's textual form is built.
\<close>

theorem unwrap_r_message_carries_error:
  assumes "to_string e = Inr text"
  shows "unwrap_r to_string (Ok v) = Inr v \<and>
         (\<exists>f. unwrap_r to_string (Err e) = Inl f \<and> sublist text (message f))"
proof -
  let ?p = "''Called `unwrap()` on an `Err` `Result` value with: ''"
  have ok: "unwrap_r to_string (Ok v) = Inr v"
    by (simp add: unwrap_r_def Ok_def)
  have eq: "unwrap_r to_string (Err e) = Inl (Error (?p @ text))"
    using assms by (simp add: unwrap_r_def Err_def)
  have "sublist text (message (Error (?p @ text)))"
    unfolding message.simps by (rule sublist_after)
  with ok eq show ?thesis by blast
qed

theorem unwrap_r_message_carries_error_witness:
  "ToString (JString ''disk full'') = Inr ''disk full'' \<and>
   unwrap_r ToString (Ok (5 :: nat) :: (nat, js_primitive) Result) = Inr 5 \<and>
   (\<exists>f. unwrap_r ToString (Err (JString ''disk full'') :: (nat, js_primitive) Result) = Inl f \<and>
        sublist ''disk full'' (message f))"
proof -
  have h: "ToString (JString ''disk full'') = Inr ''disk full''"
    by simp
  from h unwrap_r_message_carries_error
      [of ToString "JString ''disk full''" "''disk full''" "5 :: nat", OF h]
  show ?thesis
    by blast
qed

text \<open>
  \<^verbatim>\<open>Err(Symbol('s')).unwrap()\<close>: the failure is the \<^verbatim>\<open>TypeError\<close> of the conversion, and
  its message does not contain \<^verbatim>\<open>Symbol(s)\<close>, the textual form of the payload.
\<close>

theorem unwrap_r_symbol_counterexample:
  "unwrap_r ToString (Err (JSymbol ''s'') :: (nat, js_primitive) Result) =
     Inl (TypeError ''Cannot convert a Symbol value to a string'') \<and>
   \<not> sublist (textual_form (JSymbol ''s''))
       (message (TypeError ''Cannot convert a Symbol value to a string''))"
proof -
  have "unwrap_r ToString (Err (JSymbol ''s'') :: (nat, js_primitive) Result) =
     Inl (TypeError ''Cannot convert a Symbol value to a string'')"
    by (simp add: unwrap_r_def Err_def)
  moreover have "\<not> sublist (textual_form (JSymbol ''s''))
       (message (TypeError ''Cannot convert a Symbol value to a string''))"
    by code_simp
  ultimately show ?thesis by blast
qed

section \<open>Projections between the two families\<close>

text \<open>
  C4. For every \<open>v\<close>, \<open>Some(v).ok().get().unwrap()\<close> returns \<open>v\<close>. \<open>None().ok()\<close> is
  \<open>Err\<close> of the sentinel \<^verbatim>\<open>undefined\<close>, and \<open>None().ok().fail().unwrap()\<close> returns that
  sentinel.
\<close>

theorem option_result_round_trip:
  "unwrap (get (ok (Some_opt v))) = Inr v \<and>
   ok None_opt = Err Undefined \<and>
   unwrap (fail (ok None_opt)) = Inr Undefined"
  by (simp add: unwrap_def get_def fail_def ok_def Some_opt_def None_opt_def Ok_def Err_def)

text \<open>
  C8. \<open>okOr\<close> and \<open>okOrElse\<close> agree: for every option and every error value \<open>e\<close>,
  \<open>okOrElse\<close> with the supplier \<^verbatim>\<open>() => e\<close> returns what \<open>okOr\<close> returns with \<open>e\<close>, and
  leaves the state as it was; both give \<open>Ok\<close> of the payload on \<open>Some\<close> and \<open>Err e\<close> on
  \<open>None\<close>.
\<close>

theorem okOr_okOrElse_agree:
  "okOrElse opt (ret e) = ret (okOr opt e) \<and>
   okOr (Some_opt v) e = Ok v \<and>
   okOr None_opt e = Err e"
proof -
  have "okOrElse opt (ret e) = ret (okOr opt e)"
    by (cases "variant opt") (simp_all add: okOrElse_def okOr_def bind_ret)
  then show ?thesis
    by (simp add: okOr_def Some_opt_def None_opt_def)
qed

section \<open>Expect\<close>

text \<open>
  C5. For every message \<open>m\<close>, \<open>expect m\<close> on \<open>None\<close> and on \<open>Err e\<close> throws \<open>m\<close> itself, so
  the message of the failure is exactly \<open>m\<close>; on \<open>Some v\<close> and on \<open>Ok v\<close> it returns \<open>v\<close>.
\<close>

theorem expect_message_exact:
  "expect None_opt m = Inl (Thrown m) \<and>
   expect_r (Err e) m = Inl (Thrown m) \<and>
   message (Thrown m) = m \<and>
   expect (Some_opt v) m = Inr v \<and>
   expect_r (Ok v) m = Inr v"
  by (simp add: expect_def expect_r_def Some_opt_def None_opt_def Ok_def Err_def)

section \<open>Maybe\<close>

text \<open>
  C6. \<open>Maybe v\<close> is \<open>None\<close> exactly when \<open>v\<close> is an absent marker (\<^verbatim>\<open>undefined\<close> or
  \<^verbatim>\<open>null\<close>); for any other input it is the \<open>Some\<close> that carries the input.
\<close>

theorem Maybe_absent_iff_None:
  "none (Maybe v) = (v = Is_undefined \<or> v = Is_null) \<and>
   (Maybe v = None_opt) = (v = Is_undefined \<or> v = Is_null) \<and>
   (case v of Value x \<Rightarrow> Maybe v = Some_opt x | _ \<Rightarrow> Maybe v = None_opt)"
  by (cases v) (simp_all add: Maybe_def none_def type_def Some_opt_def None_opt_def)

section \<open>Exclusive or\<close>

text \<open>
  C7. The truth table of \<open>xor\<close>: \<open>Some a\<close> with \<open>None\<close> is \<open>Some a\<close>, \<open>None\<close> with \<open>Some b\<close>
  is \<open>Some b\<close>, two \<open>Some\<close> give \<open>None\<close>, two \<open>None\<close> give \<open>None\<close>.
\<close>

theorem xor_truth_table:
  "xor_opt (Some_opt a) None_opt = Some_opt a \<and>
   xor_opt None_opt (Some_opt b) = Some_opt b \<and>
   xor_opt (Some_opt a) (Some_opt b) = None_opt \<and>
   xor_opt None_opt None_opt = None_opt"
  by (simp add: xor_opt_def type_Some_opt type_None_opt)

section \<open>Tag predicates\<close>

text \<open>
  C10. On every option \<open>some\<close> is the negation of \<open>none\<close>, and on every result \<open>ok\<close> is
  the negation of \<open>err\<close>: exactly one predicate of each pair holds. This covers the
  instances that the constructors and the rehydration functions return.
\<close>

theorem tag_predicates_exclusive:
  "some x = (\<not> none x) \<and> ok_r y = (\<not> err y)"
  by (cases "variant x"; cases "variant_r y")
     (simp_all add: some_def none_def ok_r_def err_def type_def type_r_def)

section \<open>Totality\<close>

text \<open>
  The calls of \<open>unwrap\<close> and \<open>expect\<close> are the ones that fail: on \<open>None\<close> and on \<open>Err\<close>
  their outcome is the failure thrown.
\<close>

lemma unwrap_family_calls_fail:
  "call_option None_opt Call_unwrap =
     Inl (Error ''Called `unwrap()` on a `None` `Option` value'') \<and>
   call_option None_opt (Call_expect msg) = Inl (Thrown msg) \<and>
   call_result to_string (Err e) (RCall_expect msg) = Inl (Thrown msg)"
  by (simp add: unwrap_def expect_def expect_r_def None_opt_def Err_def)




end
